theory Spec2Isabelle
  imports Complex_Main "HOL-Library.AList"
begin

section \<open>Python values used by the integration\<close>

text \<open>
  A naive \<open>datetime.datetime\<close> is represented by the number of microseconds elapsed since
  0001-01-01T00:00:00 on the local time line, a \<open>timedelta\<close> by a number of microseconds.
  The calendar fields the code reads are derived from that count. Day 0 (ordinal 1 in
  Python) is a Monday, so the Monday-based weekday index is the day count modulo 7.
  Representable datetimes end with 9999-12-31T23:59:59.999999 (ordinal 3652059).
\<close>

type_synonym datetime = int
type_synonym timedelta = int

definition us_per_second :: int where
  "us_per_second = 1000000"

definition us_per_day :: int where
  "us_per_day = 86400 * us_per_second"

definition datetime_limit :: int where
  "datetime_limit = 3652059 * us_per_day"

definition dt_hour :: "datetime \<Rightarrow> int" where
  "dt_hour t = (t div (3600 * us_per_second)) mod 24"

definition dt_minute :: "datetime \<Rightarrow> int" where
  "dt_minute t = (t div (60 * us_per_second)) mod 60"

definition dt_second :: "datetime \<Rightarrow> int" where
  "dt_second t = (t div us_per_second) mod 60"

definition timedelta_minutes :: "int \<Rightarrow> timedelta" where
  "timedelta_minutes n = n * 60 * us_per_second"

text \<open>
  The exceptions (subclasses of Python's \<open>Exception\<close>) that the modelled code paths can
  meet. \<open>LibraryError\<close> stands for any other exception raised inside a library call.
\<close>

datatype py_exception =
    AttributeError | KeyError | ValueError | TypeError | OverflowError
  | NotFittedError | LibraryError string

text \<open>\<open>datetime + timedelta\<close>: Python raises OverflowError outside the representable range.\<close>

definition dt_add :: "datetime \<Rightarrow> timedelta \<Rightarrow> py_exception + datetime" where
  "dt_add t d = (if 0 \<le> t + d \<and> t + d < datetime_limit then Inr (t + d) else Inl OverflowError)"

text \<open>
  A cell of a dictionary row or of a data frame: text, a number, or the ISO-8601 text of a
  datetime (\<open>CTime t\<close> stands for \<open>t.isoformat()\<close>, which \<open>pd.to_datetime\<close> reads back as \<open>t\<close>).
  A Python dict (and one row of a data frame, keyed by column name) is an association list
  in insertion order; \<open>AList.update\<close> is item assignment, \<open>AList.delete\<close> is dropping a key.
\<close>

datatype cell = CStr string | CNum real | CTime datetime

type_synonym pydict = "(string \<times> cell) list"

datatype level = INFO | WARNING | ERROR

type_synonym entity_id = string

text \<open>
  Observable effects, in the order the code performs them: a log call (level and format
  string), the \<open>climate.set_temperature\<close> service call on the target entity, the entity's
  \<open>async_write_ha_state\<close>, and the thermostat's request for a prediction.
\<close>

datatype event =
    Log level string
  | SetTemperatureService entity_id real
  | WriteHaState
  | PredictRequest pydict

section \<open>ml\_core.py: the model manager\<close>

text \<open>
  The scikit-learn pipeline is external. A pipeline object is either freshly constructed
  (\<open>Unfitted\<close>) or carries a fitted estimator of an abstract type \<open>'m\<close>. Fitting and the fitted
  estimator's prediction are parameters \<open>fit\<close> and \<open>predict_fn\<close> of the operations below;
  both may raise. The construction of the ColumnTransformer from the column dtypes
  happens inside \<open>fit\<close>.
\<close>

datatype 'm pipeline = Unfitted | Fitted 'm

record 'm mlcore =
  model :: "'m pipeline option"
  is_trained :: bool

text \<open>
  The two files of one config entry. \<open>None\<close> is a path that does not exist. The training
  log is held as its data rows, each keyed by the column names of the header;
  \<open>data_readable\<close> says whether \<open>pd.read_csv\<close> succeeds, \<open>data_writable\<close> whether opening
  for append and writing a row succeeds, \<open>model_loadable\<close> whether \<open>joblib.load\<close> succeeds
  and \<open>model_writable\<close> whether \<open>joblib.dump\<close> succeeds.
\<close>

record 'm disk =
  data_file :: "pydict list option"
  data_readable :: bool
  data_writable :: bool
  model_file :: "'m pipeline option"
  model_loadable :: bool
  model_writable :: bool

definition load_model :: "'m disk \<Rightarrow> 'm mlcore \<Rightarrow> 'm mlcore \<times> event list" where
  "load_model d c =
     (case model_file d of
        Some p \<Rightarrow>
          (if model_loadable d
           then (c\<lparr>model := Some p, is_trained := True\<rparr>,
                 [Log INFO ''Successfully loaded pre-trained model.''])
           else (c, [Log ERROR ''Error loading model: %s'']))
      | None \<Rightarrow> (c, [Log INFO ''No pre-trained model found. Waiting for training.'']))"

definition MLCore_init :: "'m disk \<Rightarrow> 'm mlcore \<times> event list" where
  "MLCore_init d = load_model d \<lparr>model = None, is_trained = False\<rparr>"

definition seconds_in_day :: int where
  "seconds_in_day = 24 * 60 * 60"

definition seconds_from_midnight :: "datetime \<Rightarrow> int" where
  "seconds_from_midnight t = dt_hour t * 3600 + dt_minute t * 60 + dt_second t"

definition time_sin :: "datetime \<Rightarrow> real" where
  "time_sin t = sin (2 * pi * real_of_int (seconds_from_midnight t) / real_of_int seconds_in_day)"

definition time_cos :: "datetime \<Rightarrow> real" where
  "time_cos t = cos (2 * pi * real_of_int (seconds_from_midnight t) / real_of_int seconds_in_day)"

text \<open>
  The weekday accessors. On the training path the timestamp column is a pandas datetime
  column, whose \<open>.dt.dayofweek\<close> is the Monday-based index 0..6. On the prediction path
  \<open>now\<close> is a \<open>datetime.datetime\<close>, which offers \<open>weekday()\<close> and \<open>isoweekday()\<close> but has no
  attribute \<open>dayofweek\<close>: reading it raises AttributeError.
\<close>

definition timestamp_dayofweek :: "datetime \<Rightarrow> int" where
  "timestamp_dayofweek t = (t div us_per_day) mod 7"

definition datetime_dayofweek :: "datetime \<Rightarrow> py_exception + int" where
  "datetime_dayofweek now = Inl AttributeError"

text \<open>The time features of one training row (lines 66 to 72 of \<open>_train_model_sync\<close>).\<close>

definition train_time_features :: "datetime \<Rightarrow> real \<times> real \<times> int" where
  "train_time_features ts = (time_sin ts, time_cos ts, timestamp_dayofweek ts)"

text \<open>The time features at prediction (lines 119 to 124 of \<open>_predict_temperature_sync\<close>).\<close>

definition predict_time_features :: "datetime \<Rightarrow> py_exception + real \<times> real \<times> int" where
  "predict_time_features now =
     (let s = time_sin now; c = time_cos now
      in case datetime_dayofweek now of
           Inl e \<Rightarrow> Inl e
         | Inr d \<Rightarrow> Inr (s, c, d))"

text \<open>
  \<open>pd.to_datetime(df['timestamp'])\<close>: KeyError without such a column, ValueError at a cell
  that is not a timestamp. A \<open>CTime\<close> cell is taken to hold a stamp that the installed
  pandas accepts in this column: pandas parses the column as a whole, and depending on its
  version it rejects stamps outside the range of its nanosecond clock (the years 1678 to
  2261 are inside) and columns that mix stamps with and without a fractional part.
\<close>

fun to_datetime_column :: "pydict list \<Rightarrow> py_exception + datetime list" where
  "to_datetime_column [] = Inr []"
| "to_datetime_column (r # rs) =
     (case map_of r ''timestamp'' of
        None \<Rightarrow> Inl KeyError
      | Some (CTime t) \<Rightarrow>
          (case to_datetime_column rs of
             Inl e \<Rightarrow> Inl e
           | Inr ts \<Rightarrow> Inr (t # ts))
      | Some _ \<Rightarrow> Inl ValueError)"

text \<open>\<open>df[k]\<close>: the cells of column \<open>k\<close>, KeyError without such a column.\<close>

fun column :: "string \<Rightarrow> pydict list \<Rightarrow> py_exception + cell list" where
  "column k [] = Inr []"
| "column k (r # rs) =
     (case map_of r k of
        None \<Rightarrow> Inl KeyError
      | Some v \<Rightarrow>
          (case column k rs of
             Inl e \<Rightarrow> Inl e
           | Inr vs \<Rightarrow> Inr (v # vs)))"

definition add_time_features :: "datetime \<Rightarrow> pydict \<Rightarrow> pydict" where
  "add_time_features ts r =
     (case train_time_features ts of
        (s, c, d) \<Rightarrow>
          AList.delete ''timestamp''
            (AList.update ''day_of_week'' (CNum (real_of_int d))
              (AList.update ''time_cos'' (CNum c)
                (AList.update ''time_sin'' (CNum s) r))))"

text \<open>Lines 63 to 76: from the frame read from the log to \<open>X\<close> and \<open>y\<close>.\<close>

definition feature_engineering :: "pydict list \<Rightarrow> py_exception + pydict list \<times> cell list" where
  "feature_engineering df =
     (case to_datetime_column df of
        Inl e \<Rightarrow> Inl e
      | Inr ts \<Rightarrow>
          (let df1 = map2 add_time_features ts df
           in case column ''target_temperature'' df1 of
                Inl e \<Rightarrow> Inl e
              | Inr y \<Rightarrow> Inr (map (AList.delete ''target_temperature'') df1, y)))"

text \<open>
  \<open>_train_model_sync\<close>. The result is what the call does: \<open>Inr b\<close> when it returns \<open>b\<close>,
  \<open>Inl e\<close> when exception \<open>e\<close> leaves it; then the manager and the disk as the call leaves
  them, and the log.
\<close>

definition train_model_sync ::
  "(pydict list \<Rightarrow> cell list \<Rightarrow> py_exception + 'm) \<Rightarrow> 'm disk \<Rightarrow> 'm mlcore
     \<Rightarrow> (py_exception + bool) \<times> 'm mlcore \<times> 'm disk \<times> event list" where
  "train_model_sync fit d c =
     (let l0 = [Log INFO ''Starting model training...'']
      in case data_file d of
           None \<Rightarrow> (Inr False, c, d, l0 @ [Log WARNING ''Data file not found. Cannot train model.''])
         | Some df \<Rightarrow>
             if \<not> data_readable d
             then (Inr False, c, d, l0 @ [Log ERROR ''Error reading data file: %s''])
             else if length df < 20
             then (Inr False, c, d, l0 @ [Log INFO ''Not enough data to train. Have %d, need 20.''])
             else (case feature_engineering df of
                     Inl e \<Rightarrow> (Inl e, c, d, l0)
                   | Inr (X, y) \<Rightarrow>
                       (case fit X y of
                          Inl e \<Rightarrow> (Inl e, c\<lparr>model := Some Unfitted\<rparr>, d, l0)
                        | Inr m \<Rightarrow>
                            (let c1 = c\<lparr>model := Some (Fitted m)\<rparr>;
                                 l1 = l0 @ [Log INFO ''Model training completed successfully.'']
                             in if model_writable d
                                then (Inr True, c1\<lparr>is_trained := True\<rparr>,
                                      d\<lparr>model_file := Some (Fitted m)\<rparr>,
                                      l1 @ [Log INFO ''Model saved to %s''])
                                else (Inr False, c1, d,
                                      l1 @ [Log ERROR ''Error saving model: %s''])))))"

definition pipeline_predict ::
  "('m \<Rightarrow> pydict \<Rightarrow> py_exception + real) \<Rightarrow> 'm pipeline \<Rightarrow> pydict \<Rightarrow> py_exception + real" where
  "pipeline_predict predict_fn p df =
     (case p of
        Unfitted \<Rightarrow> Inl NotFittedError
      | Fitted m \<Rightarrow> predict_fn m df)"

text \<open>The body of the \<open>try\<close> block of \<open>_predict_temperature_sync\<close>.\<close>

definition predict_temperature_try ::
  "('m \<Rightarrow> pydict \<Rightarrow> py_exception + real) \<Rightarrow> 'm mlcore \<Rightarrow> pydict \<Rightarrow> datetime
     \<Rightarrow> py_exception + real" where
  "predict_temperature_try predict_fn c sensor_data now =
     (case predict_time_features now of
        Inl e \<Rightarrow> Inl e
      | Inr (s, co, d) \<Rightarrow>
          (let df = AList.update ''day_of_week'' (CNum (real_of_int d))
                      (AList.update ''time_cos'' (CNum co)
                        (AList.update ''time_sin'' (CNum s) sensor_data))
           in case model c of
                None \<Rightarrow> Inl AttributeError
              | Some p \<Rightarrow> pipeline_predict predict_fn p df))"

text \<open>
  \<open>_predict_temperature_sync\<close>: the \<open>try\<close> block under its \<open>except Exception\<close> handler.
  \<open>Inr (Some x)\<close> is the return of the float \<open>x\<close>, \<open>Inr None\<close> the return of \<open>None\<close>, and
  \<open>Inl e\<close> would be an exception leaving the call.
\<close>

definition predict_temperature_sync ::
  "('m \<Rightarrow> pydict \<Rightarrow> py_exception + real) \<Rightarrow> 'm mlcore \<Rightarrow> pydict \<Rightarrow> datetime
     \<Rightarrow> (py_exception + real option) \<times> event list" where
  "predict_temperature_sync predict_fn c sensor_data now =
     (case predict_temperature_try predict_fn c sensor_data now of
        Inr x \<Rightarrow> (Inr (Some x), [Log INFO ''Predicted temperature: %s''])
      | Inl e \<Rightarrow> (Inr None, [Log ERROR ''Error during prediction: %s'']))"

definition async_predict_temperature ::
  "('m \<Rightarrow> pydict \<Rightarrow> py_exception + real) \<Rightarrow> 'm mlcore \<Rightarrow> pydict \<Rightarrow> datetime
     \<Rightarrow> (py_exception + real option) \<times> event list" where
  "async_predict_temperature predict_fn c sensor_data now =
     (if \<not> is_trained c \<or> model c = None
      then (Inr None, [Log WARNING ''Prediction requested, but model is not trained.''])
      else predict_temperature_sync predict_fn c sensor_data now)"

section \<open>utils.py and data\_collector.py: the training log\<close>

text \<open>
  Of a Home Assistant state object the code reads the state string and, on the target
  climate entity, the attributes \<open>temperature\<close> and \<open>current_temperature\<close>. \<open>hass.states.get\<close>
  is a lookup that yields \<open>None\<close> for an entity that is not registered.
\<close>

record ha_state =
  st_state :: string
  attr_temperature :: "real option"
  attr_current_temperature :: "real option"

type_synonym states = "entity_id \<rightharpoonup> ha_state"

text \<open>Constants of Home Assistant that the code imports.\<close>

definition STATE_UNAVAILABLE :: string where
  "STATE_UNAVAILABLE = ''unavailable''"

definition STATE_UNKNOWN :: string where
  "STATE_UNKNOWN = ''unknown''"

definition HVAC_MODE_OFF :: string where
  "HVAC_MODE_OFF = ''off''"

definition HVAC_MODE_AUTO :: string where
  "HVAC_MODE_AUTO = ''auto''"

definition sanitize_entity_id_for_feature :: "entity_id \<Rightarrow> string" where
  "sanitize_entity_id_for_feature eid = map (\<lambda>ch. if ch = CHR ''.'' then CHR ''_'' else ch) eid"

text \<open>
  The collector keeps the target climate entity and the sensor list. Its cached feature names
  are the sanitized sensor ids, computed once in the constructor and never reassigned, so
  \<open>self._feature_names[i]\<close> is the sanitized \<open>i\<close>-th sensor id.
\<close>

record data_collector =
  climate_entity_id :: entity_id
  sensor_entity_ids :: "entity_id list"

definition feature_names :: "data_collector \<Rightarrow> string list" where
  "feature_names col = map sanitize_entity_id_for_feature (sensor_entity_ids col)"

definition fieldnames :: "data_collector \<Rightarrow> string list" where
  "fieldnames col = [''timestamp''] @ feature_names col @ [''target_temperature'']"

text \<open>The value stored for one sensor: \<open>state.state if state else "unknown"\<close>.\<close>

definition sensor_value :: "states \<Rightarrow> entity_id \<Rightarrow> cell" where
  "sensor_value sts eid = (case sts eid of Some s \<Rightarrow> CStr (st_state s) | None \<Rightarrow> CStr ''unknown'')"

text \<open>\<open>csv.DictWriter.writerow\<close>: the cells in field order, the empty string for a missing key.\<close>

definition writerow :: "string list \<Rightarrow> pydict \<Rightarrow> pydict" where
  "writerow names data_row =
     map (\<lambda>k. (k, case map_of data_row k of Some v \<Rightarrow> v | None \<Rightarrow> CStr [])) names"

text \<open>
  The rows in the log; opening a missing file for append creates it. A write that fails
  is logged and swallowed by the handlers of \<open>_write_to_csv\<close>.
\<close>

definition stored_rows :: "'m disk \<Rightarrow> pydict list" where
  "stored_rows d = (case data_file d of None \<Rightarrow> [] | Some rows \<Rightarrow> rows)"

definition write_to_csv :: "data_collector \<Rightarrow> 'm disk \<Rightarrow> pydict \<Rightarrow> 'm disk \<times> event list" where
  "write_to_csv col d data_row =
     (if data_writable d
      then (d\<lparr>data_file := Some (stored_rows d @ [writerow (fieldnames col) data_row])\<rparr>, [])
      else (d, [Log ERROR ''Error writing to CSV file: %s'']))"

definition collect_row :: "data_collector \<Rightarrow> states \<Rightarrow> datetime \<Rightarrow> real \<Rightarrow> pydict" where
  "collect_row col sts now target =
     AList.update ''target_temperature'' (CNum target)
       (fold (\<lambda>eid row. AList.update (sanitize_entity_id_for_feature eid) (sensor_value sts eid) row)
             (sensor_entity_ids col)
             [(''timestamp'', CTime now)])"

definition async_collect_data_point ::
  "data_collector \<Rightarrow> states \<Rightarrow> 'm disk \<Rightarrow> datetime \<Rightarrow> real \<Rightarrow> 'm disk \<times> event list" where
  "async_collect_data_point col sts d now target =
     write_to_csv col d (collect_row col sts now target)"

text \<open>
  A state-change event of the bus carries the old and the new state object, either of which
  may be absent. The task the handler creates for the data point is run at once.
\<close>

record state_change =
  old_state :: "ha_state option"
  new_state :: "ha_state option"

definition async_handle_initial_learning_state_change ::
  "data_collector \<Rightarrow> states \<Rightarrow> 'm disk \<Rightarrow> datetime \<Rightarrow> state_change \<Rightarrow> 'm disk \<times> event list" where
  "async_handle_initial_learning_state_change col sts d now ev =
     (case (old_state ev, new_state ev) of
        (Some old, Some new) \<Rightarrow>
          (let old_temp = attr_temperature old; new_temp = attr_temperature new
           in case new_temp of
                Some v \<Rightarrow>
                  if old_temp \<noteq> new_temp
                  then (case async_collect_data_point col sts d now v of
                          (d', evs) \<Rightarrow>
                            (d', Log INFO ''Initial learning: Target temp for %s changed to %s. Collecting data.'' # evs))
                  else (d, [])
              | None \<Rightarrow> (d, []))
      | _ \<Rightarrow> (d, []))"

section \<open>climate.py: the controller\<close>

definition PRESET_CONTROLLING :: string where
  "PRESET_CONTROLLING = ''Controlling''"

definition PRESET_LEARNING_CONTROLLING :: string where
  "PRESET_LEARNING_CONTROLLING = ''Learning & Controlling''"

record thermostat =
  target_climate_entity :: entity_id
  sensor_entities :: "entity_id list"
  override_duration :: timedelta
  target_temperature :: real
  current_temperature :: "real option"
  hvac_mode :: string
  preset_mode :: string
  is_override_active :: bool
  override_end_time :: "datetime option"

text \<open>
  \<open>round(x, 1)\<close> of the predicted \<open>numpy.float64\<close>: times ten, to the nearest integer with a
  tie to the even one, divided by ten. The model computes this on real numbers; the code
  computes it in floating point, where the product is itself rounded first.
\<close>

definition round_half_even :: "real \<Rightarrow> int" where
  "round_half_even x =
     (let f = \<lfloor>x\<rfloor>; r = x - real_of_int f
      in if r < 1 / 2 then f else if 1 / 2 < r then f + 1 else if even f then f else f + 1)"

definition py_round1 :: "real \<Rightarrow> real" where
  "py_round1 x = real_of_int (round_half_even (x * 10)) / 10"

text \<open>
  \<open>async_set_temperature\<close>. \<open>temperature\<close> is \<open>kwargs.get(ATTR_TEMPERATURE)\<close>, \<open>now_set\<close> the
  clock reading of the method itself and \<open>now_row\<close> the later reading taken by the collector.
  The result is the thermostat and the disk as the call leaves them, the effects, and the
  exception that leaves the call, if any.
\<close>

definition async_set_temperature ::
  "data_collector \<Rightarrow> states \<Rightarrow> 'm disk \<Rightarrow> thermostat \<Rightarrow> real option \<Rightarrow> datetime \<Rightarrow> datetime
     \<Rightarrow> thermostat \<times> 'm disk \<times> event list \<times> py_exception option" where
  "async_set_temperature col sts d th temperature now_set now_row =
     (case temperature of
        None \<Rightarrow> (th, d, [], None)
      | Some v \<Rightarrow>
          (let th1 = th\<lparr>target_temperature := v, is_override_active := True\<rparr>
           in case dt_add now_set (override_duration th1) of
                Inl e \<Rightarrow> (th1, d, [], Some e)
              | Inr until \<Rightarrow>
                  (let th2 = th1\<lparr>override_end_time := Some until\<rparr>;
                       l1 = [Log INFO ''%s: Manual override to %s until %s''];
                       (d', l2) =
                         (if preset_mode th2 = PRESET_LEARNING_CONTROLLING
                          then (case async_collect_data_point col sts d now_row v of
                                  (d1, evs) \<Rightarrow>
                                    (d1, Log INFO ''Recording manual override as new learning data point.'' # evs))
                          else (d, []))
                   in (th2, d',
                       l1 @ l2 @ [SetTemperatureService (target_climate_entity th2) v, WriteHaState],
                       None))))"

text \<open>The snapshot of the prediction loop (lines 261 to 265).\<close>

definition sensor_snapshot :: "states \<Rightarrow> entity_id list \<Rightarrow> pydict" where
  "sensor_snapshot sts eids =
     fold (\<lambda>eid sd. AList.update (sanitize_entity_id_for_feature eid) (sensor_value sts eid) sd) eids []"

text \<open>
  The override test of the prediction loop (lines 254 to 259): \<open>Inr None\<close> is the early
  return while the override lasts, \<open>Inr (Some (th', log))\<close> falls through to the prediction
  with the override cleared if it had run out. Comparing a datetime with an end time that
  was never set (\<open>None\<close>) raises TypeError.
\<close>

definition override_check ::
  "thermostat \<Rightarrow> datetime \<Rightarrow> py_exception + (thermostat \<times> event list) option" where
  "override_check th now_loop =
     (if is_override_active th
      then (case override_end_time th of
              None \<Rightarrow> Inl TypeError
            | Some end_time \<Rightarrow>
                if now_loop < end_time then Inr None
                else Inr (Some (th\<lparr>is_override_active := False\<rparr>,
                                [Log INFO ''%s: Manual override has ended.''])))
      else Inr (Some (th, [])))"

text \<open>
  \<open>_async_prediction_loop\<close>, one tick. \<open>now_loop\<close> is the clock reading compared with the
  end of the override, \<open>now_pred\<close> the later reading taken inside the prediction.
\<close>

definition async_prediction_loop ::
  "('m \<Rightarrow> pydict \<Rightarrow> py_exception + real) \<Rightarrow> 'm mlcore \<Rightarrow> states \<Rightarrow> thermostat \<Rightarrow> datetime \<Rightarrow> datetime
     \<Rightarrow> thermostat \<times> event list \<times> py_exception option" where
  "async_prediction_loop predict_fn c sts th now_loop now_pred =
     (if hvac_mode th \<noteq> HVAC_MODE_AUTO \<or> \<not> is_trained c then (th, [], None)
      else
        (case override_check th now_loop of
           Inl e \<Rightarrow> (th, [], Some e)
         | Inr None \<Rightarrow> (th, [], None)
         | Inr (Some (th1, l1)) \<Rightarrow>
             (let sensor_data = sensor_snapshot sts (sensor_entities th1)
              in case async_predict_temperature predict_fn c sensor_data now_pred of
                   (Inl e, l2) \<Rightarrow> (th1, l1 @ [PredictRequest sensor_data] @ l2, Some e)
                 | (Inr (Some predicted_temp), l2) \<Rightarrow>
                     (let th2 = th1\<lparr>target_temperature := py_round1 predicted_temp\<rparr>
                      in (th2,
                          l1 @ [PredictRequest sensor_data] @ l2
                             @ [Log INFO ''%s: Predicted temperature: %s'',
                                SetTemperatureService (target_climate_entity th2) (target_temperature th2),
                                WriteHaState],
                          None))
                 | (Inr None, l2) \<Rightarrow>
                     (th1,
                      l1 @ [PredictRequest sensor_data] @ l2
                         @ [Log WARNING ''%s: Failed to get a prediction.'', WriteHaState],
                      None))))"

text \<open>A run of ticks, each with its own view of the sensors and its own clock readings.\<close>

fun run_ticks ::
  "('m \<Rightarrow> pydict \<Rightarrow> py_exception + real) \<Rightarrow> 'm mlcore \<Rightarrow> thermostat
     \<Rightarrow> (states \<times> datetime \<times> datetime) list \<Rightarrow> thermostat \<times> event list \<times> py_exception option" where
  "run_ticks predict_fn c th [] = (th, [], None)"
| "run_ticks predict_fn c th ((sts, now_loop, now_pred) # rest) =
     (case async_prediction_loop predict_fn c sts th now_loop now_pred of
        (th1, evs1, Some e) \<Rightarrow> (th1, evs1, Some e)
      | (th1, evs1, None) \<Rightarrow>
          (case run_ticks predict_fn c th1 rest of
             (th2, evs2, r) \<Rightarrow> (th2, evs1 @ evs2, r)))"

text \<open>\<open>_update_target_state\<close> and the listener of the thermostat on its target entity.\<close>

definition update_target_state :: "thermostat \<Rightarrow> ha_state option \<Rightarrow> thermostat \<times> event list" where
  "update_target_state th s =
     (case s of
        Some st \<Rightarrow>
          if st_state st \<noteq> STATE_UNAVAILABLE \<and> st_state st \<noteq> STATE_UNKNOWN
          then (th\<lparr>current_temperature := attr_current_temperature st\<rparr>, [WriteHaState])
          else (th, [])
      | None \<Rightarrow> (th, []))"

definition async_target_climate_state_listener ::
  "thermostat \<Rightarrow> state_change \<Rightarrow> thermostat \<times> event list" where
  "async_target_climate_state_listener th ev = update_target_state th (new_state ev)"

text \<open>
  Both the collector (in \<open>async_setup\<close>) and the thermostat (in \<open>async_added_to_hass\<close>)
  subscribe to the state changes of the target climate entity. One such change reaches the
  collector's handler, registered first, and then the thermostat's listener.
\<close>

definition target_state_changed ::
  "data_collector \<Rightarrow> states \<Rightarrow> 'm disk \<Rightarrow> thermostat \<Rightarrow> datetime \<Rightarrow> state_change
     \<Rightarrow> thermostat \<times> 'm disk \<times> event list" where
  "target_state_changed col sts d th now ev =
     (case async_handle_initial_learning_state_change col sts d now ev of
        (d', l1) \<Rightarrow>
          (case async_target_climate_state_listener th ev of
             (th', l2) \<Rightarrow> (th', d', l1 @ l2)))"

section \<open>The invariant of the model manager\<close>

definition model_invariant :: "'m mlcore \<Rightarrow> bool" where
  "model_invariant c = (is_trained c \<longrightarrow> model c \<noteq> None)"

section \<open>Concrete inputs\<close>

text \<open>
  Midnight of Monday 2024-01-01, a log row as the collector writes it at that instant, a
  disk holding \<open>n\<close> such rows whose model file can (or cannot) be written, a fit that
  succeeds, an estimator that predicts 21, and a manager before and after a successful
  load. Then one collector and one thermostat (in Auto, with the given preset and an
  override duration of 60 minutes) on the same target entity, one sensor that reports
  Unavailable, an empty writable log, and a state of the target entity with a given target
  temperature.
\<close>

definition t_2024 :: datetime where
  "t_2024 = 738885 * us_per_day"

definition example_row :: pydict where
  "example_row =
     [(''timestamp'', CTime t_2024), (''sensor_a'', CStr ''21.5''), (''target_temperature'', CNum 21)]"

definition example_disk :: "nat \<Rightarrow> bool \<Rightarrow> unit disk" where
  "example_disk n w =
     \<lparr>data_file = Some (replicate n example_row), data_readable = True, data_writable = True,
      model_file = None, model_loadable = True, model_writable = w\<rparr>"

definition example_fit :: "pydict list \<Rightarrow> cell list \<Rightarrow> py_exception + unit" where
  "example_fit X y = Inr ()"

definition fresh_core :: "unit mlcore" where
  "fresh_core = \<lparr>model = None, is_trained = False\<rparr>"

definition example_collector :: data_collector where
  "example_collector = \<lparr>climate_entity_id = ''climate.living'', sensor_entity_ids = [''sensor.a'']\<rparr>"

definition example_states :: states where
  "example_states =
     [''sensor.a'' \<mapsto> \<lparr>st_state = ''unavailable'', attr_temperature = None, attr_current_temperature = None\<rparr>]"

definition example_thermostat :: "string \<Rightarrow> thermostat" where
  "example_thermostat preset =
     \<lparr>target_climate_entity = ''climate.living'', sensor_entities = [''sensor.a''],
      override_duration = timedelta_minutes 60, target_temperature = 21, current_temperature = None,
      hvac_mode = HVAC_MODE_AUTO, preset_mode = preset, is_override_active = False,
      override_end_time = None\<rparr>"

definition trained_core :: "unit mlcore" where
  "trained_core = \<lparr>model = Some (Fitted ()), is_trained = True\<rparr>"

definition example_predict :: "unit \<Rightarrow> pydict \<Rightarrow> py_exception + real" where
  "example_predict m df = Inr 21"

definition empty_disk :: "unit disk" where
  "empty_disk = \<lparr>data_file = Some [], data_readable = True, data_writable = True,
      model_file = None, model_loadable = True, model_writable = True\<rparr>"

definition climate_state :: "real \<Rightarrow> ha_state" where
  "climate_state v = \<lparr>st_state = ''heat'', attr_temperature = Some v, attr_current_temperature = Some 19\<rparr>"

text \<open>Noon of the same day.\<close>

definition t_noon :: datetime where
  "t_noon = 738885 * us_per_day + 43200 * us_per_second"

section \<open>Auxiliary facts\<close>

lemma to_datetime_column_replicate:
  "map_of r ''timestamp'' = Some (CTime t) \<Longrightarrow> to_datetime_column (replicate n r) = Inr (replicate n t)"
  by (induction n) simp_all

lemma column_replicate:
  "map_of r k = Some v \<Longrightarrow> column k (replicate n r) = Inr (replicate n v)"
  by (induction n) simp_all

lemma feature_engineering_replicate:
  assumes "map_of r ''timestamp'' = Some (CTime t)"
    and "map_of (add_time_features t r) ''target_temperature'' = Some v"
  shows "feature_engineering (replicate n r) =
           Inr (replicate n (AList.delete ''target_temperature'' (add_time_features t r)), replicate n v)"
  using assms
  by (simp add: feature_engineering_def to_datetime_column_replicate zip_replicate column_replicate)

lemma example_row_target:
  "map_of (add_time_features t_2024 example_row) ''target_temperature'' = Some (CNum 21)"
  by (simp add: add_time_features_def train_time_features_def example_row_def AList.delete_eq)

lemma example_feature_engineering:
  "feature_engineering (replicate n example_row) =
     Inr (replicate n (AList.delete ''target_temperature'' (add_time_features t_2024 example_row)),
          replicate n (CNum 21))"
  by (rule feature_engineering_replicate [OF _ example_row_target]) (simp add: example_row_def)

lemma predict_returns_none:
  "is_trained c \<Longrightarrow> \<exists>l. async_predict_temperature pf c sd now = (Inr None, l)"
  by (simp add: async_predict_temperature_def predict_temperature_sync_def
      predict_temperature_try_def predict_time_features_def datetime_dayofweek_def)

lemma set_temperature_state:
  "async_set_temperature col sts d th (Some v) t0 tr = (th1, d1, evs, None) \<Longrightarrow>
     th1 = th\<lparr>target_temperature := v, is_override_active := True,
              override_end_time := Some (t0 + override_duration th)\<rparr>"
  by (auto simp add: async_set_temperature_def dt_add_def Let_def split: if_splits prod.splits)

lemma tick_skip:
  "hvac_mode th = HVAC_MODE_AUTO \<Longrightarrow> is_trained c \<Longrightarrow> is_override_active th \<Longrightarrow>
   override_end_time th = Some e \<Longrightarrow> t < e \<Longrightarrow>
     async_prediction_loop pf c sts th t tp = (th, [], None)"
  by (simp add: async_prediction_loop_def override_check_def)

lemma run_ticks_skip:
  "hvac_mode th = HVAC_MODE_AUTO \<Longrightarrow> is_trained c \<Longrightarrow> is_override_active th \<Longrightarrow>
   override_end_time th = Some e \<Longrightarrow> \<forall>x\<in>set ticks. fst (snd x) < e \<Longrightarrow>
     run_ticks pf c th (ticks @ rest) = run_ticks pf c th rest"
proof (induction ticks)
  case Nil
  then show ?case by simp
next
  case (Cons x ticks)
  obtain sts t tp where x: "x = (sts, t, tp)" by (cases x)
  with Cons.prems have "t < e" by simp
  with Cons.prems have "async_prediction_loop pf c sts th t tp = (th, [], None)"
    by (simp add: tick_skip)
  with Cons x show ?case by simp
qed

lemma run_ticks_single:
  "run_ticks pf c th [(sts, t, tp)] = async_prediction_loop pf c sts th t tp"
  by (simp split: prod.splits option.splits)

lemma tick_expired:
  assumes "hvac_mode th = HVAC_MODE_AUTO" "is_trained c" "is_override_active th"
    "override_end_time th = Some e" "e \<le> t"
  shows "\<exists>l. async_prediction_loop pf c sts th t tp =
           (th\<lparr>is_override_active := False\<rparr>,
            [Log INFO ''%s: Manual override has ended.'',
             PredictRequest (sensor_snapshot sts (sensor_entities th))] @ l, None)"
proof -
  from predict_returns_none [OF assms(2)]
  obtain l where "async_predict_temperature pf c (sensor_snapshot sts (sensor_entities th)) tp = (Inr None, l)"
    by blast
  with assms show ?thesis
    by (simp add: async_prediction_loop_def override_check_def)
qed

lemma map_of_writerow:
  "map_of (writerow names row) k =
     (if k \<in> set names then Some (case map_of row k of Some v \<Rightarrow> v | None \<Rightarrow> CStr []) else None)"
  by (simp add: writerow_def map_of_map_restrict restrict_map_def)

lemma collect_row_label:
  "map_of (writerow (fieldnames col) (collect_row col sts now v)) ''target_temperature'' = Some (CNum v)"
  by (simp add: map_of_writerow fieldnames_def collect_row_def update_conv')

lemma map_of_fold_update:
  "eid \<in> set eids \<Longrightarrow> \<forall>e\<in>set eids. f e = f eid \<longrightarrow> e = eid \<Longrightarrow>
     map_of (fold (\<lambda>e row. AList.update (f e) (g e) row) eids row0) (f eid) = Some (g eid)"
proof (induction eids rule: rev_induct)
  case Nil
  then show ?case by simp
next
  case (snoc x xs)
  show ?case
  proof (cases "x = eid")
    case True
    then show ?thesis by (simp add: update_conv')
  next
    case False
    with snoc.prems have "eid \<in> set xs" and "f x \<noteq> f eid" by auto
    with snoc show ?thesis by (simp add: update_conv')
  qed
qed

section \<open>The claims\<close>

subsection \<open>C1: time-of-day and day-of-week encoding on both paths\<close>

text \<open>
  Claim C1 asks that the training path and the prediction path compute the same \<open>time_sin\<close>,
  \<open>time_cos\<close> and \<open>day_of_week\<close> for the same instant. At noon of Monday 2024-01-01 the
  training path yields \<open>(0, -1, 0)\<close>, while the prediction path raises AttributeError when it
  reads \<open>now.dayofweek\<close>, so it yields no feature values at all.
\<close>

theorem dayofweek_paths_differ:
  "train_time_features t_noon = (0, - 1, 0)
   \<and> predict_time_features t_noon = Inl AttributeError"
  by (simp add: train_time_features_def predict_time_features_def datetime_dayofweek_def
      time_sin_def time_cos_def timestamp_dayofweek_def seconds_from_midnight_def seconds_in_day_def
      t_noon_def dt_hour_def dt_minute_def dt_second_def us_per_day_def us_per_second_def)


subsection \<open>C2: the threshold of 20 records\<close>

text \<open>
  Claim C2: when the log is read with fewer than 20 records, \<open>train\<close> returns \<open>False\<close> after
  logging that there is not enough data, and leaves the manager (model and trained flag) and
  the disk as they were. With exactly 20 records, when the feature engineering and the fit
  raise nothing and the model file can be written, it returns \<open>True\<close>, the fitted pipeline is
  the live model, the trained flag is set and the pipeline is on disk.
\<close>

theorem train_threshold:
  "data_file d = Some df \<Longrightarrow> data_readable d \<Longrightarrow>
     (length df < 20 \<longrightarrow>
        train_model_sync fit d c =
          (Inr False, c, d,
           [Log INFO ''Starting model training...'',
            Log INFO ''Not enough data to train. Have %d, need 20.'']))
   \<and> (length df = 20 \<and> feature_engineering df = Inr (X, y) \<and> fit X y = Inr m \<and> model_writable d \<longrightarrow>
        (case train_model_sync fit d c of
           (r, c', d', l) \<Rightarrow>
             r = Inr True \<and> is_trained c' \<and> model c' = Some (Fitted m)
             \<and> model_file d' = Some (Fitted m)))"
  by (simp add: train_model_sync_def Let_def)

text \<open>Witness for C2: 19 and 20 rows of the example log.\<close>

theorem train_threshold_witness:
  "train_model_sync example_fit (example_disk 19 True) fresh_core =
     (Inr False, fresh_core, example_disk 19 True,
      [Log INFO ''Starting model training...'',
       Log INFO ''Not enough data to train. Have %d, need 20.''])
   \<and> (case train_model_sync example_fit (example_disk 20 True) fresh_core of
        (r, c', d', l) \<Rightarrow>
          r = Inr True \<and> is_trained c' \<and> model c' = Some (Fitted ())
          \<and> model_file d' = Some (Fitted ()))"
proof -
  have a: "data_file (example_disk 19 True) = Some (replicate 19 example_row)"
    "data_readable (example_disk 19 True)"
    "data_file (example_disk 20 True) = Some (replicate 20 example_row)"
    "data_readable (example_disk 20 True)" "model_writable (example_disk 20 True)"
    by (simp_all add: example_disk_def)
  have b: "example_fit (replicate 20 (AList.delete ''target_temperature'' (add_time_features t_2024 example_row)))
             (replicate 20 (CNum 21)) = Inr ()"
    by (simp add: example_fit_def)
  from train_threshold [OF a(1) a(2), where fit = example_fit and c = fresh_core]
  have 1: "train_model_sync example_fit (example_disk 19 True) fresh_core =
     (Inr False, fresh_core, example_disk 19 True,
      [Log INFO ''Starting model training...'',
       Log INFO ''Not enough data to train. Have %d, need 20.''])"
    by simp
  from train_threshold [OF a(3) a(4), where fit = example_fit and c = fresh_core and m = "()"] example_feature_engineering [of 20] b a(5)
  have 2: "(case train_model_sync example_fit (example_disk 20 True) fresh_core of
        (r, c', d', l) \<Rightarrow>
          r = Inr True \<and> is_trained c' \<and> model c' = Some (Fitted ())
          \<and> model_file d' = Some (Fitted ()))"
    by simp
  from 1 2 show ?thesis by simp
qed

subsection \<open>C3: prediction never raises\<close>

text \<open>
  Claim C3: for every manager, every feature record (whatever its cells, the "unknown"
  token included), every behaviour of the estimator and every clock reading, no exception
  leaves \<open>predict\<close>. Without a trained flag or without a model it returns \<open>None\<close> after the
  warning that the model is not trained; otherwise it returns a float, or \<open>None\<close> after
  logging the error met during prediction.
\<close>

theorem predict_never_raises:
  "(\<exists>r. fst (async_predict_temperature pf c sd now) = Inr r)
   \<and> (\<not> is_trained c \<or> model c = None \<longrightarrow>
        async_predict_temperature pf c sd now
          = (Inr None, [Log WARNING ''Prediction requested, but model is not trained.'']))
   \<and> (is_trained c \<and> model c \<noteq> None \<longrightarrow>
        (\<exists>x. async_predict_temperature pf c sd now
               = (Inr (Some x), [Log INFO ''Predicted temperature: %s'']))
        \<or> async_predict_temperature pf c sd now
             = (Inr None, [Log ERROR ''Error during prediction: %s'']))"
  by (auto simp add: async_predict_temperature_def predict_temperature_sync_def split: sum.splits)

text \<open>Witness for C3: a record holding the "unknown" token, without and with a model.\<close>

theorem predict_never_raises_witness:
  "async_predict_temperature example_predict fresh_core [(''sensor_a'', CStr ''unknown'')] t_2024
     = (Inr None, [Log WARNING ''Prediction requested, but model is not trained.''])
   \<and> ((\<exists>x. async_predict_temperature example_predict trained_core [(''sensor_a'', CStr ''unknown'')] t_2024
               = (Inr (Some x), [Log INFO ''Predicted temperature: %s'']))
        \<or> async_predict_temperature example_predict trained_core [(''sensor_a'', CStr ''unknown'')] t_2024
             = (Inr None, [Log ERROR ''Error during prediction: %s'']))"
proof -
  have a: "\<not> is_trained fresh_core \<or> model fresh_core = None"
    by (simp add: fresh_core_def)
  have b: "is_trained trained_core \<and> model trained_core \<noteq> None"
    by (simp add: trained_core_def)
  from predict_never_raises [of example_predict fresh_core "[(''sensor_a'', CStr ''unknown'')]" t_2024]
    predict_never_raises [of example_predict trained_core "[(''sensor_a'', CStr ''unknown'')]" t_2024]
    a b
  show ?thesis by blast
qed

subsection \<open>C4: the override window\<close>

text \<open>
  Claim C4: in Auto with a trained model and an override duration of 60 minutes, after a
  manual \<open>setTemperature(v)\<close> at \<open>t0\<close> the override is active; any run of ticks whose clock
  readings are before \<open>t0 + 60 min\<close> leaves the thermostat as it is and performs nothing (no
  prediction, no actuator command); the next tick at \<open>t0 + 60 min\<close> or later clears the
  override and requests a prediction.
\<close>

theorem override_window:
  assumes "hvac_mode th = HVAC_MODE_AUTO" and "is_trained c"
    and "override_duration th = timedelta_minutes 60"
    and "async_set_temperature col sts d th (Some v) t0 t_row = (th1, d1, evs, None)"
    and "\<forall>x\<in>set ticks. fst (snd x) < t0 + timedelta_minutes 60"
    and "t0 + timedelta_minutes 60 \<le> t"
  shows "is_override_active th1
       \<and> run_ticks pf c th1 ticks = (th1, [], None)
       \<and> (case run_ticks pf c th1 (ticks @ [(sts', t, tp)]) of
            (th2, evs2, r) \<Rightarrow>
              \<not> is_override_active th2 \<and> r = None
              \<and> PredictRequest (sensor_snapshot sts' (sensor_entities th)) \<in> set evs2)"
proof -
  from assms(4) have th1: "th1 = th\<lparr>target_temperature := v, is_override_active := True,
              override_end_time := Some (t0 + override_duration th)\<rparr>"
    by (rule set_temperature_state)
  with assms(1,3) have p: "hvac_mode th1 = HVAC_MODE_AUTO" "is_override_active th1"
    "override_end_time th1 = Some (t0 + timedelta_minutes 60)" "sensor_entities th1 = sensor_entities th"
    by simp_all
  from run_ticks_skip [OF p(1) assms(2) p(2) p(3) assms(5), of pf "[]"]
  have a: "run_ticks pf c th1 ticks = (th1, [], None)" by simp
  from run_ticks_skip [OF p(1) assms(2) p(2) p(3) assms(5), of pf "[(sts', t, tp)]"]
  have b: "run_ticks pf c th1 (ticks @ [(sts', t, tp)]) = async_prediction_loop pf c sts' th1 t tp"
    by (simp only: run_ticks_single)
  from tick_expired [OF p(1) assms(2) p(2) p(3) assms(6), of pf sts' tp] p(4)
  obtain l where "async_prediction_loop pf c sts' th1 t tp =
           (th1\<lparr>is_override_active := False\<rparr>,
            [Log INFO ''%s: Manual override has ended.'',
             PredictRequest (sensor_snapshot sts' (sensor_entities th))] @ l, None)"
    by auto
  with a b p(2) show ?thesis by simp
qed

text \<open>Witness for C4: ticks 5 minutes and 60 minutes less a microsecond after \<open>t0\<close>, then at 60 minutes.\<close>

theorem override_window_witness:
  "(case async_set_temperature example_collector example_states empty_disk
           (example_thermostat PRESET_CONTROLLING) (Some 22) t_2024 t_2024 of
      (th1, d1, evs, r) \<Rightarrow>
        r = None \<and> is_override_active th1
        \<and> run_ticks example_predict trained_core th1
            [(example_states, t_2024 + timedelta_minutes 5, t_2024 + timedelta_minutes 5),
             (example_states, t_2024 + timedelta_minutes 60 - 1, t_2024 + timedelta_minutes 60)]
          = (th1, [], None)
        \<and> (case run_ticks example_predict trained_core th1
             ([(example_states, t_2024 + timedelta_minutes 5, t_2024 + timedelta_minutes 5),
               (example_states, t_2024 + timedelta_minutes 60 - 1, t_2024 + timedelta_minutes 60)]
              @ [(example_states, t_2024 + timedelta_minutes 60, t_2024 + timedelta_minutes 60)]) of
            (th2, evs2, r2) \<Rightarrow>
              \<not> is_override_active th2 \<and> r2 = None
              \<and> PredictRequest (sensor_snapshot example_states
                    (sensor_entities (example_thermostat PRESET_CONTROLLING))) \<in> set evs2))"
proof -
  obtain th1 d1 evs r where s: "async_set_temperature example_collector example_states empty_disk
           (example_thermostat PRESET_CONTROLLING) (Some 22) t_2024 t_2024 = (th1, d1, evs, r)"
    by (cases "async_set_temperature example_collector example_states empty_disk
           (example_thermostat PRESET_CONTROLLING) (Some 22) t_2024 t_2024") auto
  have r: "r = None"
    using s by (auto simp add: async_set_temperature_def dt_add_def Let_def example_thermostat_def
        t_2024_def timedelta_minutes_def datetime_limit_def us_per_day_def us_per_second_def
        PRESET_CONTROLLING_def PRESET_LEARNING_CONTROLLING_def split: if_splits)
  have h1: "hvac_mode (example_thermostat PRESET_CONTROLLING) = HVAC_MODE_AUTO"
    and h2: "is_trained trained_core"
    and h3: "override_duration (example_thermostat PRESET_CONTROLLING) = timedelta_minutes 60"
    by (simp_all add: example_thermostat_def trained_core_def)
  have h5: "\<forall>x\<in>set [(example_states, t_2024 + timedelta_minutes 5, t_2024 + timedelta_minutes 5),
             (example_states, t_2024 + timedelta_minutes 60 - 1, t_2024 + timedelta_minutes 60)].
          fst (snd x) < t_2024 + timedelta_minutes 60"
    by (simp add: timedelta_minutes_def us_per_second_def)
  have h6: "t_2024 + timedelta_minutes 60 \<le> t_2024 + timedelta_minutes 60" by simp
  from override_window [OF h1 h2 h3 s [unfolded r] h5 h6, of example_predict example_states
      "t_2024 + timedelta_minutes 60"] s r
  show ?thesis by simp
qed

subsection \<open>C5: a manual adjustment\<close>

text \<open>
  Claim C5: for every value \<open>v\<close> and every thermostat state (any mode, any preset), when
  \<open>now + overrideDuration\<close> is a representable datetime, \<open>setTemperature(v)\<close> returns with the
  override active until \<open>now + overrideDuration\<close> and the target \<open>v\<close>, and the service call
  forwarding \<open>v\<close> to the target entity is among its effects. The log gains exactly one row,
  labelled \<open>v\<close>, when the preset is Learning and Controlling (and the log accepts the write;
  a failed write is logged and dropped); with any other preset the disk is unchanged.
\<close>

theorem set_temperature_effects:
  "dt_add now_set (override_duration th) = Inr until \<Longrightarrow>
     (case async_set_temperature col sts d th (Some v) now_set now_row of
        (th', d', evs, r) \<Rightarrow>
          r = None
          \<and> is_override_active th'
          \<and> override_end_time th' = Some until \<and> until = now_set + override_duration th
          \<and> target_temperature th' = v
          \<and> hvac_mode th' = hvac_mode th \<and> preset_mode th' = preset_mode th
          \<and> SetTemperatureService (target_climate_entity th) v \<in> set evs
          \<and> d' = (if preset_mode th = PRESET_LEARNING_CONTROLLING \<and> data_writable d
                  then d\<lparr>data_file :=
                          Some (stored_rows d @ [writerow (fieldnames col) (collect_row col sts now_row v)])\<rparr>
                  else d)
          \<and> map_of (writerow (fieldnames col) (collect_row col sts now_row v)) ''target_temperature''
              = Some (CNum v))"
  by (auto simp add: async_set_temperature_def Let_def async_collect_data_point_def write_to_csv_def
      collect_row_label dt_add_def split: if_splits)

text \<open>Witness for C5: the same adjustment under each preset.\<close>

theorem set_temperature_effects_witness:
  "(case async_set_temperature example_collector example_states empty_disk
           (example_thermostat PRESET_LEARNING_CONTROLLING) (Some 22) t_2024 (t_2024 + 1) of
      (th', d', evs, r) \<Rightarrow>
        r = None \<and> is_override_active th'
        \<and> override_end_time th' = Some (t_2024 + timedelta_minutes 60)
        \<and> target_temperature th' = 22
        \<and> SetTemperatureService ''climate.living'' 22 \<in> set evs
        \<and> data_file d' = Some [[(''timestamp'', CTime (t_2024 + 1)), (''sensor_a'', CStr ''unavailable''),
                                 (''target_temperature'', CNum 22)]])
   \<and> (case async_set_temperature example_collector example_states empty_disk
           (example_thermostat PRESET_CONTROLLING) (Some 22) t_2024 (t_2024 + 1) of
      (th', d', evs, r) \<Rightarrow>
        r = None \<and> is_override_active th'
        \<and> SetTemperatureService ''climate.living'' 22 \<in> set evs
        \<and> d' = empty_disk)"
proof -
  have a: "dt_add t_2024 (override_duration (example_thermostat p)) = Inr (t_2024 + timedelta_minutes 60)" for p
    by (simp add: dt_add_def example_thermostat_def t_2024_def timedelta_minutes_def
        datetime_limit_def us_per_day_def us_per_second_def)
  have row: "writerow (fieldnames example_collector)
               (collect_row example_collector example_states (t_2024 + 1) 22) =
             [(''timestamp'', CTime (t_2024 + 1)), (''sensor_a'', CStr ''unavailable''),
              (''target_temperature'', CNum 22)]"
    by (simp add: writerow_def fieldnames_def feature_names_def collect_row_def example_collector_def
        sanitize_entity_id_for_feature_def sensor_value_def example_states_def)
  have neq: "PRESET_CONTROLLING \<noteq> PRESET_LEARNING_CONTROLLING"
    by (simp add: PRESET_CONTROLLING_def PRESET_LEARNING_CONTROLLING_def)
  have 1: "(case async_set_temperature example_collector example_states empty_disk
           (example_thermostat PRESET_LEARNING_CONTROLLING) (Some 22) t_2024 (t_2024 + 1) of
      (th', d', evs, r) \<Rightarrow>
        r = None \<and> is_override_active th'
        \<and> override_end_time th' = Some (t_2024 + timedelta_minutes 60)
        \<and> target_temperature th' = 22
        \<and> SetTemperatureService ''climate.living'' 22 \<in> set evs
        \<and> data_file d' = Some [[(''timestamp'', CTime (t_2024 + 1)), (''sensor_a'', CStr ''unavailable''),
                                 (''target_temperature'', CNum 22)]])"
    using set_temperature_effects [OF a [of PRESET_LEARNING_CONTROLLING],
        where col = example_collector and sts = example_states and d = empty_disk and v = 22
          and now_row = "t_2024 + 1"]
    by (auto simp add: row example_thermostat_def empty_disk_def stored_rows_def split: prod.splits)
  have 2: "(case async_set_temperature example_collector example_states empty_disk
           (example_thermostat PRESET_CONTROLLING) (Some 22) t_2024 (t_2024 + 1) of
      (th', d', evs, r) \<Rightarrow>
        r = None \<and> is_override_active th'
        \<and> SetTemperatureService ''climate.living'' 22 \<in> set evs
        \<and> d' = empty_disk)"
    using set_temperature_effects [OF a [of PRESET_CONTROLLING],
        where col = example_collector and sts = example_states and d = empty_disk and v = 22
          and now_row = "t_2024 + 1"] neq
    by (auto simp add: example_thermostat_def split: prod.splits)
  from 1 2 show ?thesis by blast
qed

subsection \<open>C6: externally observed changes of the target\<close>

text \<open>
  Claim C6 asks that an externally observed change of the actuator's target temperature be
  recorded only under the preset Learning and Controlling. The collector's handler does not
  consult the preset: with the preset Controlling, a change of the target from 20 to 22
  appends a row labelled 22.
\<close>

theorem external_change_recorded_while_controlling:
  "preset_mode (example_thermostat PRESET_CONTROLLING) = PRESET_CONTROLLING
   \<and> data_file (fst (snd (target_state_changed example_collector example_states empty_disk
        (example_thermostat PRESET_CONTROLLING) t_2024
        \<lparr>old_state = Some (climate_state 20), new_state = Some (climate_state 22)\<rparr>)))
     = Some [[(''timestamp'', CTime t_2024), (''sensor_a'', CStr ''unavailable''),
              (''target_temperature'', CNum 22)]]"
  by (simp add: target_state_changed_def async_handle_initial_learning_state_change_def
      async_collect_data_point_def write_to_csv_def writerow_def fieldnames_def feature_names_def
      collect_row_def example_collector_def sanitize_entity_id_for_feature_def sensor_value_def
      example_states_def example_thermostat_def empty_disk_def climate_state_def stored_rows_def
      async_target_climate_state_listener_def update_target_state_def Let_def split: prod.splits)

subsection \<open>C7: a failed save after a successful fit\<close>

text \<open>
  Against C7 as stated: a manager without a loaded model trains on 20 rows, the fit
  succeeds and the save fails. \<open>train\<close> returns \<open>False\<close> and the fitted pipeline is the live
  model, but the next \<open>predict\<close> is refused with the warning that the model is not trained.
\<close>

theorem persist_failure_counterexample:
  "fst (train_model_sync example_fit (example_disk 20 False) fresh_core) = Inr False
   \<and> model (fst (snd (train_model_sync example_fit (example_disk 20 False) fresh_core))) = Some (Fitted ())
   \<and> async_predict_temperature example_predict
        (fst (snd (train_model_sync example_fit (example_disk 20 False) fresh_core)))
        [(''sensor_a'', CStr ''21.5'')] t_2024
     = (Inr None, [Log WARNING ''Prediction requested, but model is not trained.''])"
  by (simp add: train_model_sync_def example_disk_def example_feature_engineering example_fit_def
      fresh_core_def async_predict_temperature_def Let_def)

text \<open>
  Claim C7, amended: if the fit succeeds and the save fails, \<open>train\<close> returns \<open>False\<close>, the
  fitted pipeline is the live model, the trained flag and the disk are as before, and a
  later \<open>predict\<close> is refused as not trained exactly when the flag was false before the call.
\<close>

theorem persist_failure_keeps_flag:
  assumes "data_file d = Some df" and "data_readable d" and "20 \<le> length df"
    and "feature_engineering df = Inr (X, y)" and "fit X y = Inr m" and "\<not> model_writable d"
  shows "(case train_model_sync fit d c of
            (r, c', d', l) \<Rightarrow>
              r = Inr False \<and> model c' = Some (Fitted m) \<and> is_trained c' = is_trained c \<and> d' = d
              \<and> ((async_predict_temperature pf c' sd now
                    = (Inr None, [Log WARNING ''Prediction requested, but model is not trained.'']))
                  = (\<not> is_trained c)))"
  using assms
  by (simp add: train_model_sync_def Let_def async_predict_temperature_def predict_temperature_sync_def
      split: sum.splits)

text \<open>Witness for C7: a manager whose flag was already set.\<close>

theorem persist_failure_keeps_flag_witness:
  "(case train_model_sync example_fit (example_disk 20 False) trained_core of
            (r, c', d', l) \<Rightarrow>
              r = Inr False \<and> model c' = Some (Fitted ()) \<and> is_trained c' \<and> d' = example_disk 20 False
              \<and> async_predict_temperature example_predict c' [(''sensor_a'', CStr ''21.5'')] t_2024
                    \<noteq> (Inr None, [Log WARNING ''Prediction requested, but model is not trained.'']))"
proof -
  have a: "data_file (example_disk 20 False) = Some (replicate 20 example_row)"
    "data_readable (example_disk 20 False)" "20 \<le> length (replicate 20 example_row)"
    "\<not> model_writable (example_disk 20 False)"
    by (simp_all add: example_disk_def)
  have b: "example_fit (replicate 20 (AList.delete ''target_temperature'' (add_time_features t_2024 example_row)))
             (replicate 20 (CNum 21)) = Inr ()"
    by (simp add: example_fit_def)
  have t: "is_trained trained_core" by (simp add: trained_core_def)
  from persist_failure_keeps_flag [where fit = example_fit and c = trained_core
        and pf = example_predict and sd = "[(''sensor_a'', CStr ''21.5'')]" and now = t_2024,
      OF a(1) a(2) a(3) example_feature_engineering [of 20] b a(4)] t
  show ?thesis by (auto split: prod.splits)
qed

subsection \<open>C9: the snapshot encoding\<close>

text \<open>
  Against C9 as stated: a sensor whose state is Unavailable gets the column value
  "unavailable", not the "unknown" token, in the snapshot of the prediction loop and in the
  row of the collector.
\<close>

theorem unavailable_sensor_counterexample:
  "map_option st_state (example_states ''sensor.a'') = Some STATE_UNAVAILABLE
   \<and> sensor_snapshot example_states [''sensor.a''] = [(''sensor_a'', CStr ''unavailable'')]
   \<and> collect_row example_collector example_states t_2024 22
       = [(''timestamp'', CTime t_2024), (''sensor_a'', CStr ''unavailable''),
          (''target_temperature'', CNum 22)]
   \<and> CStr ''unavailable'' \<noteq> CStr ''unknown''"
  by (simp add: example_states_def STATE_UNAVAILABLE_def sensor_snapshot_def collect_row_def
      example_collector_def sanitize_entity_id_for_feature_def sensor_value_def)

text \<open>
  Claim C9, amended: the encoding is total, and for every configured sensor whose feature
  name no other configured sensor shares, the column holds text: the "unknown" token when the
  entity is absent, and the reported state string as it is when the entity is present (so
  Unknown gives "unknown" and Unavailable gives "unavailable"). This holds for the snapshot of
  the prediction loop and, for a feature name other than the label's, for the collector's row.
\<close>

theorem snapshot_encoding:
  assumes "eid \<in> set eids"
    and "\<forall>e\<in>set eids. sanitize_entity_id_for_feature e = sanitize_entity_id_for_feature eid \<longrightarrow> e = eid"
  shows "map_of (sensor_snapshot sts eids) (sanitize_entity_id_for_feature eid)
           = Some (CStr (case sts eid of None \<Rightarrow> ''unknown'' | Some s \<Rightarrow> st_state s))
       \<and> (sanitize_entity_id_for_feature eid \<noteq> ''target_temperature'' \<longrightarrow>
            map_of (collect_row \<lparr>climate_entity_id = ce, sensor_entity_ids = eids\<rparr> sts now v)
                   (sanitize_entity_id_for_feature eid)
              = Some (CStr (case sts eid of None \<Rightarrow> ''unknown'' | Some s \<Rightarrow> st_state s)))"
proof -
  have v: "sensor_value sts eid = CStr (case sts eid of None \<Rightarrow> ''unknown'' | Some s \<Rightarrow> st_state s)"
    by (simp add: sensor_value_def split: option.splits)
  from map_of_fold_update [OF assms, of "sensor_value sts"] v
  show ?thesis
    by (simp add: sensor_snapshot_def collect_row_def update_conv')
qed

text \<open>Witness for C9: an Unavailable sensor and an absent one.\<close>

theorem snapshot_encoding_witness:
  "map_of (sensor_snapshot example_states [''sensor.a'', ''sensor.b'']) ''sensor_a'' = Some (CStr ''unavailable'')
   \<and> map_of (sensor_snapshot example_states [''sensor.a'', ''sensor.b'']) ''sensor_b'' = Some (CStr ''unknown'')
   \<and> map_of (collect_row \<lparr>climate_entity_id = ''climate.living'',
                           sensor_entity_ids = [''sensor.a'', ''sensor.b'']\<rparr> example_states t_2024 22)
        ''sensor_b'' = Some (CStr ''unknown'')"
proof -
  have sa: "sanitize_entity_id_for_feature ''sensor.a'' = ''sensor_a''"
    and sb: "sanitize_entity_id_for_feature ''sensor.b'' = ''sensor_b''"
    by (simp_all add: sanitize_entity_id_for_feature_def)
  have a: "''sensor.a'' \<in> set [''sensor.a'', ''sensor.b'']"
    and b: "''sensor.b'' \<in> set [''sensor.a'', ''sensor.b'']" by simp_all
  have ia: "\<forall>e\<in>set [''sensor.a'', ''sensor.b''].
      sanitize_entity_id_for_feature e = sanitize_entity_id_for_feature ''sensor.a'' \<longrightarrow> e = ''sensor.a''"
    and ib: "\<forall>e\<in>set [''sensor.a'', ''sensor.b''].
      sanitize_entity_id_for_feature e = sanitize_entity_id_for_feature ''sensor.b'' \<longrightarrow> e = ''sensor.b''"
    by (simp_all add: sa sb)
  from snapshot_encoding [OF a ia, where sts = example_states and ce = "''climate.living''"
        and now = t_2024 and v = 22]
    snapshot_encoding [OF b ib, where sts = example_states and ce = "''climate.living''"
        and now = t_2024 and v = 22]
  show ?thesis by (simp add: sa sb example_states_def)
qed

subsection \<open>C10: a set trained flag implies a live model\<close>

text \<open>
  Claim C10: the constructor establishes, and \<open>load\<close> and \<open>train\<close> (also when an exception
  leaves it) preserve, that the model reference is not \<open>None\<close> whenever the trained flag is
  set; \<open>predict\<close> assigns no field. Under the invariant the guard of \<open>predict\<close> fires exactly
  when the flag is unset.
\<close>

theorem model_invariant_preserved:
  "model_invariant (fst (MLCore_init d))
   \<and> (model_invariant c \<longrightarrow>
        model_invariant (fst (load_model d c))
        \<and> model_invariant (fst (snd (train_model_sync fit d c)))
        \<and> (\<not> is_trained c \<or> model c = None) = (\<not> is_trained c))"
  by (auto simp add: model_invariant_def MLCore_init_def load_model_def train_model_sync_def Let_def
      split: option.splits sum.splits prod.splits)

text \<open>Witness for C10: a manager with a loaded model, reloaded and retrained.\<close>

theorem model_invariant_preserved_witness:
  "model_invariant (fst (MLCore_init (example_disk 20 True)))
   \<and> model_invariant trained_core
   \<and> model_invariant (fst (load_model (example_disk 20 True) trained_core))
   \<and> model_invariant (fst (snd (train_model_sync example_fit (example_disk 20 False) trained_core)))"
proof -
  have t: "model_invariant trained_core"
    by (simp add: model_invariant_def trained_core_def)
  from model_invariant_preserved [of "example_disk 20 True" trained_core example_fit]
    model_invariant_preserved [of "example_disk 20 False" trained_core example_fit] t
  show ?thesis by simp
qed

end
